theory Spec2Isabelle
  imports Complex_Main
begin

section \<open>Python values used by bca_assay_analysis.py\<close>

text \<open>
  Exceptions are values. Only the exception classes that the modelled statements can
  raise are listed.
\<close>

datatype exn = ValueError | KeyError | IndexError | TypeError | AttributeError

text \<open>
  A float is idealised: a finite double is an exact real, and the non-finite doubles
  (\<open>inf\<close>, \<open>-inf\<close>, \<open>nan\<close>) are collapsed into \<open>NonFinite\<close>. Rounding error and overflow
  are outside the model.
\<close>

datatype float64 = Finite real | NonFinite

text \<open>
  Division of numpy doubles: a zero divisor raises nothing (numpy warns and yields
  \<open>inf\<close> or \<open>nan\<close>).
\<close>

definition truediv :: "real \<Rightarrow> real \<Rightarrow> float64" where
  "truediv x y = (if y = 0 then NonFinite else Finite (x / y))"

text \<open>\<open>Series.mean()\<close>: the arithmetic mean; \<open>nan\<close> for an empty selection.\<close>

definition mean :: "real list \<Rightarrow> float64" where
  "mean xs = (if xs = [] then NonFinite else Finite (sum_list xs / real (length xs)))"

subsection \<open>Strings\<close>

text \<open>
  A string is a list of 8-bit characters, the code points below 256. The predicates
  below are Python's \<open>str.isdigit\<close>, \<open>str.isalpha\<close>, \<open>str.isspace\<close> and \<open>str.upper\<close> on
  the ASCII characters, the code points below 128. Beyond them Python knows further
  digits, letters and blanks, which the predicates do not cover: a statement that needs
  a character to be none of these is made for ASCII strings, \<open>str.isascii\<close>.
\<close>

definition ascii_chr :: "char \<Rightarrow> bool" where
  "ascii_chr c = ((of_char c :: nat) < 128)"

definition str_isascii :: "string \<Rightarrow> bool" where
  "str_isascii s = list_all ascii_chr s"

definition digit_chr :: "char \<Rightarrow> bool" where
  "digit_chr c = (48 \<le> (of_char c :: nat) \<and> (of_char c :: nat) \<le> 57)"

definition alpha_chr :: "char \<Rightarrow> bool" where
  "alpha_chr c = ((65 \<le> (of_char c :: nat) \<and> (of_char c :: nat) \<le> 90) \<or>
                  (97 \<le> (of_char c :: nat) \<and> (of_char c :: nat) \<le> 122))"

definition space_chr :: "char \<Rightarrow> bool" where
  "space_chr c = ((9 \<le> (of_char c :: nat) \<and> (of_char c :: nat) \<le> 13) \<or>
                  (28 \<le> (of_char c :: nat) \<and> (of_char c :: nat) \<le> 32))"

definition upper_chr :: "char \<Rightarrow> char" where
  "upper_chr c = (if 97 \<le> (of_char c :: nat) \<and> (of_char c :: nat) \<le> 122
                  then char_of ((of_char c :: nat) - 32) else c)"

definition str_isdigit :: "string \<Rightarrow> bool" where
  "str_isdigit s = (s \<noteq> [] \<and> list_all digit_chr s)"

definition str_isalpha :: "string \<Rightarrow> bool" where
  "str_isalpha s = (s \<noteq> [] \<and> list_all alpha_chr s)"

definition str_upper :: "string \<Rightarrow> string" where
  "str_upper s = map upper_chr s"

definition str_strip :: "string \<Rightarrow> string" where
  "str_strip s = rev (dropWhile space_chr (rev (dropWhile space_chr s)))"

text \<open>\<open>s.split(sep)\<close> for a one-character separator; \<open>acc\<close> is the current piece, reversed.\<close>

fun split_acc :: "char \<Rightarrow> string \<Rightarrow> string \<Rightarrow> string list" where
  "split_acc sep acc [] = [rev acc]"
| "split_acc sep acc (c # cs) =
     (if c = sep then rev acc # split_acc sep [] cs else split_acc sep (c # acc) cs)"

definition str_split :: "char \<Rightarrow> string \<Rightarrow> string list" where
  "str_split sep s = split_acc sep [] s"

text \<open>
  \<open>int(s)\<close> on an ASCII string: surrounding whitespace is ignored, one sign is allowed,
  and the digits may be grouped by single underscores. \<open>None\<close> is the \<open>ValueError\<close>. The
  whitespace that \<open>int\<close> ignores is the blank and the characters 9 to 13; the separators
  28 to 31, which \<open>str.strip\<close> removes, are not part of it.
\<close>

definition int_space_chr :: "char \<Rightarrow> bool" where
  "int_space_chr c = ((9 \<le> (of_char c :: nat) \<and> (of_char c :: nat) \<le> 13) \<or> (of_char c :: nat) = 32)"

definition int_strip :: "string \<Rightarrow> string" where
  "int_strip s = rev (dropWhile int_space_chr (rev (dropWhile int_space_chr s)))"

definition digit_val :: "char \<Rightarrow> nat" where
  "digit_val c = (of_char c :: nat) - 48"

fun int_digits :: "nat \<Rightarrow> string \<Rightarrow> nat option" where
  "int_digits acc [] = Some acc"
| "int_digits acc (c # cs) =
     (if digit_chr c then int_digits (10 * acc + digit_val c) cs
      else if c = CHR ''_'' then
        (case cs of
           [] \<Rightarrow> None
         | d # ds \<Rightarrow> if digit_chr d then int_digits (10 * acc + digit_val d) ds else None)
      else None)"

definition int_literal :: "string \<Rightarrow> nat option" where
  "int_literal s =
     (case s of
        [] \<Rightarrow> None
      | c # cs \<Rightarrow> if digit_chr c then int_digits (digit_val c) cs else None)"

definition py_int :: "string \<Rightarrow> int option" where
  "py_int s =
     (case int_strip s of
        [] \<Rightarrow> None
      | c # cs \<Rightarrow>
          if c = CHR ''-'' then map_option (\<lambda>n. - int n) (int_literal cs)
          else if c = CHR ''+'' then map_option int (int_literal cs)
          else map_option int (int_literal (c # cs)))"

text \<open>The number that a string of decimal digits denotes.\<close>

definition decimal :: "string \<Rightarrow> nat" where
  "decimal s = foldl (\<lambda>a c. 10 * a + digit_val c) 0 s"

section \<open>Data frames\<close>

text \<open>
  A \<open>DataFrame\<close>: row labels, column labels and the rows of cell values. A frame is
  rectangular: every row has one cell per column label.
\<close>

record ('r, 'c, 'v) frame =
  index :: "'r list"
  columns :: "'c list"
  cells :: "'v list list"

definition rectangular :: "('r, 'c, 'v) frame \<Rightarrow> bool" where
  "rectangular d =
     (length (index d) = length (cells d) \<and>
      list_all (\<lambda>r. length r = length (columns d)) (cells d))"

text \<open>The table read from the spreadsheet: header names and rows.\<close>

record ('h, 'v) table =
  header :: "'h list"
  body :: "'v list list"

text \<open>\<open>df.tail(n)\<close>: the last \<open>n\<close> rows, all of them when there are fewer.\<close>

definition tail :: "nat \<Rightarrow> 'a list \<Rightarrow> 'a list" where
  "tail n rows = drop (length rows - n) rows"

text \<open>\<open>DataFrame.transpose()\<close>\<close>

definition transpose_frame :: "('r, 'c, 'v) frame \<Rightarrow> ('c, 'r, 'v) frame" where
  "transpose_frame d =
     \<lparr>index = columns d, columns = index d,
      cells = map (\<lambda>j. map (\<lambda>r. r ! j) (cells d)) [0..<length (columns d)]\<rparr>"

text \<open>The positions of the columns that carry a label.\<close>

definition positions :: "'c list \<Rightarrow> 'c \<Rightarrow> nat list" where
  "positions cs l = filter (\<lambda>j. cs ! j = l) [0..<length cs]"

text \<open>
  \<open>d[labels]\<close> with a list of labels: the columns in the order asked, every column that
  carries a label; \<open>KeyError\<close> when a label names no column.
\<close>

definition getitem_list :: "('r, 'c, 'v) frame \<Rightarrow> 'c list \<Rightarrow> exn + ('r, 'c, 'v) frame" where
  "getitem_list d ls =
     (if list_ex (\<lambda>l. positions (columns d) l = []) ls then Inl KeyError
      else
        (let ps = concat (map (positions (columns d)) ls)
         in Inr \<lparr>index = index d, columns = map (\<lambda>j. columns d ! j) ps,
                 cells = map (\<lambda>r. map (\<lambda>j. r ! j) ps) (cells d)\<rparr>))"

text \<open>
  \<open>d[label]\<close> with one label, as the sample loop uses it: the column as a Series.
  \<open>KeyError\<close> when the label names no column. When several columns carry the label the
  selection is a frame, its mean a Series, and formatting the concentration with
  \<open>:.3f\<close> raises \<open>TypeError\<close>.
\<close>

definition getitem :: "('r, 'c, 'v) frame \<Rightarrow> 'c \<Rightarrow> exn + 'v list" where
  "getitem d l =
     (case positions (columns d) l of
        [] \<Rightarrow> Inl KeyError
      | [j] \<Rightarrow> Inr (map (\<lambda>r. r ! j) (cells d))
      | _ \<Rightarrow> Inl TypeError)"

section \<open>Extracting the plate (lines 22 to 38)\<close>

text \<open>
  \<open>table = df.tail(8)\<close>, \<open>columns_to_select = columns[1:14]\<close>,
  \<open>data = table[columns_to_select].set_index(columns_to_select[0])\<close> and
  \<open>data.columns = range(1, 13)\<close>. The header names of a spreadsheet read by pandas
  are distinct, so columns are selected by position. \<open>columns_to_select[0]\<close> raises
  \<open>IndexError\<close> on an empty slice; assigning twelve labels to another number of
  columns raises \<open>ValueError\<close>.
\<close>

definition data :: "('h, 'v) table \<Rightarrow> exn + ('v, int, 'v) frame" where
  "data df =
     (let table = tail 8 (body df);
          columns_to_select = take 13 (drop 1 [0..<length (header df)])
      in case columns_to_select of
           [] \<Rightarrow> Inl IndexError
         | k # ks \<Rightarrow>
             if length ks \<noteq> 12 then Inl ValueError
             else Inr \<lparr>index = map (\<lambda>r. r ! k) table, columns = [1..12],
                       cells = map (\<lambda>r. map (\<lambda>j. r ! j) ks) table\<rparr>)"

section \<open>The standard curve (lines 44 to 146)\<close>

type_synonym plate = "(string, int, real) frame"

datatype locations = Tokens "string list" | Columns "int list"

text \<open>
  \<open>StandardCurve\<close>, from the parsed concentrations and the stripped location tokens.
  The result \<open>None\<close> is the \<open>except\<close> branch, which returns \<open>None\<close> four times; the
  unit strings are carried for display only and are left out. The plotting calls are
  left out.
\<close>

definition StandardCurve ::
  "plate \<Rightarrow> real list \<Rightarrow> string list \<Rightarrow> (real list \<times> locations \<times> float64 list option) option" where
  "StandardCurve plate standard_conc standard_values_location =
     (case standard_values_location of
        [] \<Rightarrow> None
      | t # _ \<Rightarrow>
          if str_isdigit t then
            (case those (map py_int standard_values_location) of
               None \<Rightarrow> None
             | Some ks \<Rightarrow>
                 (case getitem_list plate ks of
                    Inl e \<Rightarrow> None
                  | Inr sel \<Rightarrow>
                      Some (standard_conc, Columns ks,
                            Some (take (length standard_conc) (map mean (cells sel))))))
          else if str_isalpha t then
            (let ls = map str_upper standard_values_location
             in case getitem_list (transpose_frame plate) ls of
                  Inl e \<Rightarrow> None
                | Inr sel \<Rightarrow>
                    Some (standard_conc, Tokens ls,
                          Some (take (length standard_conc) (map mean (cells sel)))))
          else Some (standard_conc, Tokens standard_values_location, None))"

text \<open>The location prompt: split on commas, each piece stripped.\<close>

definition location_tokens :: "string \<Rightarrow> string list" where
  "location_tokens s = map str_strip (str_split (CHR '','') s)"

text \<open>
  \<open>Series.round(4)\<close> over exact arithmetic: to four decimals, halves to the even
  neighbour. The library rounds the double; the curve below takes the rounding as a
  parameter, and \<open>round4\<close> is the instance used in the worked examples.
\<close>

definition rint :: "real \<Rightarrow> int" where
  "rint x =
     (let f = \<lfloor>x\<rfloor>; d = x - of_int f
      in if d < 1 / 2 then f else if 1 / 2 < d then f + 1 else if even f then f else f + 1)"

definition round4 :: "float64 \<Rightarrow> float64" where
  "round4 v = (case v of NonFinite \<Rightarrow> NonFinite | Finite x \<Rightarrow> Finite (of_int (rint (x * 10000)) / 10000))"

text \<open>
  Lines 131 to 146. The rounding \<open>Series.round(4)\<close> and the regression routine
  \<open>LinearRegression().fit\<close> are library code and are the parameters \<open>rnd\<close> and \<open>fit\<close>:
  from the concentrations and the rounded means \<open>fit\<close> yields slope and intercept, or
  raises. \<open>new_data.round(4)\<close> on \<open>None\<close> raises \<open>AttributeError\<close>. No statement between
  the call of \<open>StandardCurve\<close> and the call of \<open>fit\<close> inspects the concentrations.
\<close>

definition fit_curve ::
  "(float64 \<Rightarrow> float64) \<Rightarrow> (real list \<Rightarrow> float64 list \<Rightarrow> exn + real \<times> real) \<Rightarrow> plate \<Rightarrow>
     real list \<Rightarrow> string list \<Rightarrow> exn + real \<times> real" where
  "fit_curve rnd fit plate conc locs =
     (case StandardCurve plate conc locs of
        None \<Rightarrow> Inl AttributeError
      | Some (standard_conc, standard_values_location, None) \<Rightarrow> Inl AttributeError
      | Some (standard_conc, standard_values_location, Some new_data) \<Rightarrow>
          fit standard_conc (map rnd new_data))"

text \<open>
  Least squares for one feature over exact arithmetic, the instance of \<open>fit\<close> used in
  the worked examples: inputs of different lengths or with a non-finite value are
  rejected with \<open>ValueError\<close>; the data are centred; when the centred concentrations are
  all zero the minimum-norm solution has slope 0.
\<close>

definition finite_values :: "float64 list \<Rightarrow> real list option" where
  "finite_values ys = those (map (\<lambda>v. case v of Finite y \<Rightarrow> Some y | NonFinite \<Rightarrow> None) ys)"

definition least_squares :: "real list \<Rightarrow> float64 list \<Rightarrow> exn + real \<times> real" where
  "least_squares xs vs =
     (case finite_values vs of
        None \<Rightarrow> Inl ValueError
      | Some ys \<Rightarrow>
          if length xs \<noteq> length ys \<or> xs = [] then Inl ValueError
          else
            (let n = real (length xs);
                 xbar = sum_list xs / n;
                 ybar = sum_list ys / n;
                 sxx = sum_list (map (\<lambda>x. (x - xbar) * (x - xbar)) xs);
                 sxy = sum_list (map (\<lambda>(x, y). (x - xbar) * (y - ybar)) (zip xs ys));
                 slope = (if sxx = 0 then 0 else sxy / sxx)
             in Inr (slope, ybar - slope * xbar)))"

section \<open>Concentrations (lines 201 to 241)\<close>

text \<open>
  \<open>CalcConc\<close> reads the globals \<open>slope\<close> and \<open>intercept\<close>; they are parameters here. The
  absorbance may be \<open>nan\<close> (the mean of no readings), and then so is the result.
\<close>

definition CalcConc :: "real \<Rightarrow> real \<Rightarrow> float64 \<Rightarrow> float64" where
  "CalcConc slope intercept absorbance =
     (case absorbance of
        NonFinite \<Rightarrow> NonFinite
      | Finite a \<Rightarrow> truediv (a - intercept) slope)"

text \<open>
  One pass of the body of \<open>for sample in sample_location\<close>. The value of
  \<open>sample.strip()\<close> is dropped by the source, so \<open>sample\<close> is tested as it was split.
  \<open>Skip\<close> is the silent \<open>continue\<close>, \<open>Warn\<close> the \<open>continue\<close> after the message
  "No valid sample data accessible.", \<open>Conc\<close> the printed label and concentration, and
  \<open>Raise\<close> an exception, which nothing catches.
\<close>

datatype step = Skip | Warn | Conc string float64 | Raise exn

definition sample_step :: "real \<Rightarrow> real \<Rightarrow> plate \<Rightarrow> string \<Rightarrow> step" where
  "sample_step slope intercept plate sample =
     (case sample of
        [] \<Rightarrow> Skip
      | c # _ \<Rightarrow>
          if digit_chr c then
            (case py_int sample of
               None \<Rightarrow> Raise ValueError
             | Some k \<Rightarrow>
                 (case getitem plate k of
                    Inl e \<Rightarrow> Raise e
                  | Inr col \<Rightarrow> Conc sample (CalcConc slope intercept (mean (take 3 col)))))
          else if alpha_chr c then
            (case getitem (transpose_frame plate) (str_upper sample) of
               Inl e \<Rightarrow> Raise e
             | Inr col \<Rightarrow> Conc (str_upper sample) (CalcConc slope intercept (mean (take 3 col))))
          else Warn)"

text \<open>
  The loop: the outcomes of the passes that ran, in order, and the exception that ended
  the script, if any. The passes after a \<open>Raise\<close> do not run.
\<close>

fun sample_loop :: "real \<Rightarrow> real \<Rightarrow> plate \<Rightarrow> string list \<Rightarrow> step list" where
  "sample_loop slope intercept plate [] = []"
| "sample_loop slope intercept plate (sample # rest) =
     (case sample_step slope intercept plate sample of
        Raise e \<Rightarrow> [Raise e]
      | s \<Rightarrow> s # sample_loop slope intercept plate rest)"

definition batch :: "real \<Rightarrow> real \<Rightarrow> plate \<Rightarrow> string \<Rightarrow> step list" where
  "batch slope intercept plate line = sample_loop slope intercept plate (str_split (CHR '','') line)"

section \<open>A plate for the worked examples\<close>

text \<open>
  Eight rows A to H and twelve columns 1 to 12. Rows 0 to 4 of columns 3, 4 and 5
  average to 0.05, 0.12, 0.20, 0.35 and 0.60.
\<close>

definition demo_plate :: plate where
  "demo_plate =
     \<lparr>index = [''A'', ''B'', ''C'', ''D'', ''E'', ''F'', ''G'', ''H''],
      columns = [1, 2, 3, 4, 5, 6, 7, 8, 9, 10, 11, 12],
      cells =
        [[1, 2, 0.04, 0.05, 0.06, 3, 4, 5, 6, 7, 8, 9],
         [2, 3, 0.11, 0.12, 0.13, 4, 5, 6, 7, 8, 9, 1],
         [3, 4, 0.19, 0.20, 0.21, 5, 6, 7, 8, 9, 1, 2],
         [4, 5, 0.34, 0.35, 0.36, 6, 7, 8, 9, 1, 2, 3],
         [5, 6, 0.59, 0.60, 0.61, 7, 8, 9, 1, 2, 3, 4],
         [6, 7, 0.70, 0.71, 0.72, 8, 9, 1, 2, 3, 4, 5],
         [7, 8, 0.80, 0.81, 0.82, 9, 1, 2, 3, 4, 5, 6],
         [8, 9, 0.90, 0.91, 0.92, 1, 2, 3, 4, 5, 6, 7]]\<rparr>"

text \<open>The cells of a spreadsheet: numbers and text.\<close>

datatype cell = Num real | Text string

text \<open>
  Three tables: the layout the extraction is written for (a leading column, the row
  labels, twelve readings; a title row before the eight plate rows), a table whose first
  column holds the row labels, and a table of two rows with a cell of text. The sheets
  have no names in their first row, so the columns carry the names that reading the
  sheet gives them.
\<close>

definition reader_table :: "(string, cell) table" where
  "reader_table =
     \<lparr>header = [''Unnamed: 0'', ''Unnamed: 1'', ''Unnamed: 2'', ''Unnamed: 3'', ''Unnamed: 4'',
                ''Unnamed: 5'', ''Unnamed: 6'', ''Unnamed: 7'', ''Unnamed: 8'', ''Unnamed: 9'',
                ''Unnamed: 10'', ''Unnamed: 11'', ''Unnamed: 12'', ''Unnamed: 13''],
      body = map (\<lambda>l. Text ''562'' # Text l # replicate 12 (Num 0))
               [''Plate'', ''A'', ''B'', ''C'', ''D'', ''E'', ''F'', ''G'', ''H'']\<rparr>"

definition label_first_table :: "(string, cell) table" where
  "label_first_table =
     \<lparr>header = [''Unnamed: 0'', ''Unnamed: 1'', ''Unnamed: 2'', ''Unnamed: 3'', ''Unnamed: 4'',
                ''Unnamed: 5'', ''Unnamed: 6'', ''Unnamed: 7'', ''Unnamed: 8'', ''Unnamed: 9'',
                ''Unnamed: 10'', ''Unnamed: 11'', ''Unnamed: 12''],
      body = map (\<lambda>l. Text l # replicate 12 (Num 0))
               [''A'', ''B'', ''C'', ''D'', ''E'', ''F'', ''G'', ''H'']\<rparr>"

definition short_table :: "(string, cell) table" where
  "short_table =
     \<lparr>header = header reader_table,
      body = [[Text ''562'', Text ''A'', Text ''n/a'', Num 0, Num 0, Num 0, Num 0, Num 0, Num 0,
               Num 0, Num 0, Num 0, Num 0, Num 0],
              [Text ''562'', Text ''B'', Num 1, Num 1, Num 1, Num 1, Num 1, Num 1, Num 1,
               Num 1, Num 1, Num 1, Num 1, Num 1]]\<rparr>"

section \<open>The concentration estimate\<close>




text \<open>
  C5. Round trip: with a slope that is not zero, the estimate of the absorbance
  \<open>slope * c + intercept\<close> is \<open>c\<close>.
\<close>

theorem CalcConc_round_trip:
  "slope \<noteq> 0 \<Longrightarrow> CalcConc slope intercept (Finite (slope * c + intercept)) = Finite c"
  by (simp add: CalcConc_def truediv_def)

theorem CalcConc_round_trip_witness:
  "(2::real) \<noteq> 0 \<and> CalcConc 2 1 (Finite (2 * 3 + 1)) = Finite 3"
  using CalcConc_round_trip [of 2 1 3] by simp

text \<open>
  C7, as the claim states it, fails: with slope 0 the estimate of the absorbance 1 is a
  value, the non-finite float, and the sample loop prints it and ends without an
  exception.
\<close>

theorem CalcConc_zero_slope_counterexample:
  "CalcConc 0 0 (Finite 1) = NonFinite \<and> batch 0 0 demo_plate ''3'' = [Conc ''3'' NonFinite]"
  by (simp add: CalcConc_def truediv_def batch_def str_split_def sample_step_def digit_chr_def
      py_int_def int_strip_def int_space_chr_def str_strip_def space_chr_def int_literal_def digit_val_def getitem_def
      positions_def demo_plate_def mean_def)

text \<open>
  C7, amended. \<open>CalcConc\<close> does not check the slope: with slope 0 it raises nothing and
  returns the non-finite float for every absorbance, and a pass of the sample loop raises
  with slope 0 only if it raises the same exception with any other slope.
\<close>

theorem CalcConc_zero_slope:
  "CalcConc 0 intercept absorbance = NonFinite \<and>
   (sample_step 0 intercept plate sample = Raise e \<longrightarrow>
      sample_step slope intercept plate sample = Raise e)"
  by (auto simp: CalcConc_def truediv_def sample_step_def
      split: float64.splits list.splits if_splits option.splits sum.splits)

theorem CalcConc_zero_slope_witness:
  "sample_step 0 1 demo_plate ''3a'' = Raise ValueError \<and>
   sample_step 2 1 demo_plate ''3a'' = Raise ValueError \<and>
   CalcConc 0 1 (Finite 5) = NonFinite"
proof -
  have h: "sample_step 0 1 demo_plate ''3a'' = Raise ValueError"
    by (simp add: sample_step_def digit_chr_def py_int_def int_strip_def int_space_chr_def str_strip_def space_chr_def
        int_literal_def digit_val_def)
  from CalcConc_zero_slope [of 1 "Finite 5" demo_plate "''3a''" ValueError 2] h
  show ?thesis by simp
qed

section \<open>The sample loop\<close>

text \<open>
  C10. A token whose first character is an ASCII character that is neither a digit nor a
  letter gets the warning and the loop goes on to the next token; a pass over an ASCII
  token that prints a concentration had a token whose first character is a digit or a
  letter. Splitting \<open>3, 4\<close> on commas leaves the token \<open>4\<close> with a leading blank, which
  stripping would remove; the loop tests the unstripped token and skips it.
\<close>

theorem first_character_gate:
  "(ascii_chr c \<and> \<not> digit_chr c \<and> \<not> alpha_chr c \<longrightarrow>
      sample_step slope intercept plate (c # cs) = Warn \<and>
      sample_loop slope intercept plate ((c # cs) # rest) =
        Warn # sample_loop slope intercept plate rest) \<and>
   (str_isascii s \<and> sample_step slope intercept plate s = Conc l v \<longrightarrow>
      (\<exists>d ds. s = d # ds \<and> (digit_chr d \<or> alpha_chr d))) \<and>
   str_split (CHR '','') ''3, 4'' = [''3'', '' 4''] \<and>
   str_strip '' 4'' = ''4'' \<and>
   sample_step slope intercept plate '' 4'' = Warn"
  by (auto simp: sample_step_def str_split_def str_strip_def space_chr_def digit_chr_def
      alpha_chr_def split: list.splits if_splits option.splits sum.splits)

theorem first_character_gate_witness:
  "ascii_chr (CHR '' '') \<and> \<not> digit_chr (CHR '' '') \<and> \<not> alpha_chr (CHR '' '') \<and>
   str_isascii ''3'' \<and>
   batch 2 1 demo_plate ''3, 4'' = [Conc ''3'' (Finite (- (133 / 300))), Warn] \<and>
   batch 2 1 demo_plate ''3,4'' =
     [Conc ''3'' (Finite (- (133 / 300))), Conc ''4'' (Finite (- (263 / 600)))]"
  using first_character_gate [of "CHR '' ''" 2 1 demo_plate "''4''" "[]" "''3''"
      "''3''" "Finite (- (133 / 300))"]
  by (simp add: CalcConc_def truediv_def batch_def str_split_def sample_step_def digit_chr_def
      alpha_chr_def ascii_chr_def str_isascii_def py_int_def int_strip_def int_space_chr_def
      int_literal_def digit_val_def getitem_def positions_def demo_plate_def mean_def)

section \<open>The extracted plate\<close>

lemma upt_from_one: "1 < m \<Longrightarrow> [1..<m] = 1 # [2..<m]"
  by (simp add: upt_conv_Cons numeral_2_eq_2 del: upt_rec_numeral)

lemma columns_slice:
  "take 13 (drop 1 [0..<n]) = (if n \<le> 1 then [] else 1 # [2..<min 14 n])"
proof -
  have "take 13 (drop 1 [0..<n]) = [1..<min 14 n]"
    by (simp add: drop_upt take_upt min_def)
  then show ?thesis
    using upt_from_one [of "min 14 n"] by (simp del: upt_rec_numeral)
qed

lemma nth_upt_slice: "a + m \<le> length r \<Longrightarrow> map (\<lambda>j. r ! j) [a..<a + m] = take m (drop a r)"
  by (rule nth_equalityI) auto

lemma data_cases:
  "data df =
     (if length (header df) \<le> 1 then Inl IndexError
      else if length (header df) < 14 then Inl ValueError
      else Inr \<lparr>index = map (\<lambda>r. r ! 1) (tail 8 (body df)), columns = [1..12],
                cells = map (\<lambda>r. map (\<lambda>j. r ! j) [2..<14]) (tail 8 (body df))\<rparr>)"
  unfolding data_def Let_def columns_slice
  by (auto simp add: min_def simp del: upt_rec_numeral)

text \<open>
  C6, as the claim states it, fails: a table whose first column holds the labels A to H,
  followed by twelve columns of numbers, is not extracted; the assignment of the twelve
  column labels raises \<open>ValueError\<close>, because the slice \<open>columns[1:14]\<close> skips the first
  column and only eleven columns are left beside the index.
\<close>

theorem data_shape_counterexample: "data label_first_table = Inl ValueError"
  by (simp add: data_def label_first_table_def Let_def)

text \<open>
  C6, amended. For a rectangular table with at least 14 columns and at least 8 rows, the
  extraction succeeds: the plate has 8 rows, the last 8 of the table, labelled by their
  cells in the second column, and 12 columns labelled 1 to 12 that hold the cells of the
  third to the fourteenth column.
\<close>

theorem data_shape:
  assumes "14 \<le> length (header df)" and "8 \<le> length (body df)"
    and "\<forall>r \<in> set (body df). length r = length (header df)"
  shows "\<exists>fr. data df = Inr fr \<and> length (index fr) = 8 \<and> length (cells fr) = 8 \<and>
           columns fr = [1, 2, 3, 4, 5, 6, 7, 8, 9, 10, 11, 12] \<and>
           (\<forall>r \<in> set (cells fr). length r = 12) \<and>
           index fr = map (\<lambda>r. r ! 1) (drop (length (body df) - 8) (body df)) \<and>
           cells fr = map (\<lambda>r. take 12 (drop 2 r)) (drop (length (body df) - 8) (body df))"
proof -
  let ?t = "drop (length (body df) - 8) (body df)"
  have len: "length ?t = 8" using assms(2) by simp
  have rows: "\<And>r. r \<in> set ?t \<Longrightarrow> 14 \<le> length r"
    using assms(1,3) by (auto dest: in_set_dropD)
  have sl: "map (\<lambda>j. r ! j) [2..<14] = take 12 (drop 2 r)" if "r \<in> set ?t" for r
    using nth_upt_slice [of 2 12 r] rows [OF that] by (simp del: upt_rec_numeral)
  have cols: "[1..12] = [1, 2, 3, 4, 5, 6, 7, 8, 9, 10, 11, 12 :: int]"
    by (simp add: upto_rec1)
  have "data df = Inr \<lparr>index = map (\<lambda>r. r ! 1) ?t, columns = [1..12],
                cells = map (\<lambda>r. map (\<lambda>j. r ! j) [2..<14]) ?t\<rparr>"
    using assms(1) by (simp add: data_cases tail_def del: upt_rec_numeral)
  moreover have "map (\<lambda>r. map (\<lambda>j. r ! j) [2..<14]) ?t = map (\<lambda>r. take 12 (drop 2 r)) ?t"
    using sl by (intro map_cong) auto
  ultimately have d: "data df = Inr \<lparr>index = map (\<lambda>r. r ! 1) ?t, columns = [1..12],
                cells = map (\<lambda>r. take 12 (drop 2 r)) ?t\<rparr>" by simp
  have "\<forall>r \<in> set ?t. length (take 12 (drop 2 r)) = 12"
    using rows by fastforce
  then show ?thesis using d len cols by simp
qed

theorem data_shape_witness:
  "14 \<le> length (header reader_table) \<and> 8 \<le> length (body reader_table) \<and>
   list_all (\<lambda>r. length r = length (header reader_table)) (body reader_table) \<and>
   (\<exists>fr. data reader_table = Inr fr \<and> length (index fr) = 8 \<and> length (cells fr) = 8 \<and>
      columns fr = [1, 2, 3, 4, 5, 6, 7, 8, 9, 10, 11, 12] \<and>
      index fr = [Text ''A'', Text ''B'', Text ''C'', Text ''D'', Text ''E'', Text ''F'',
                  Text ''G'', Text ''H''])"
proof -
  have h1: "14 \<le> length (header reader_table)"
    by (simp add: reader_table_def)
  have h2: "8 \<le> length (body reader_table)"
    by (simp add: reader_table_def)
  have h3: "\<forall>r \<in> set (body reader_table). length r = length (header reader_table)"
    by (simp add: reader_table_def)
  from data_shape [OF h1 h2 h3] obtain fr where
    fr: "data reader_table = Inr fr" "length (index fr) = 8" "length (cells fr) = 8"
      "columns fr = [1, 2, 3, 4, 5, 6, 7, 8, 9, 10, 11, 12]"
      "index fr = map (\<lambda>r. r ! 1) (drop (length (body reader_table) - 8) (body reader_table))"
    by blast
  have "index fr = [Text ''A'', Text ''B'', Text ''C'', Text ''D'', Text ''E'', Text ''F'',
                  Text ''G'', Text ''H'']"
    using fr(5) by (simp add: reader_table_def)
  moreover have "list_all (\<lambda>r. length r = length (header reader_table)) (body reader_table)"
    by (simp add: reader_table_def)
  ultimately show ?thesis using h1 h2 fr(1-4) by blast
qed

text \<open>
  C9, as the claim states it, fails: a table of two rows, one of them with a cell of
  text among the readings, is extracted without an error, into a plate of two rows.
\<close>

theorem data_fails_iff_counterexample:
  "length (body short_table) = 2 \<and>
   data short_table =
     Inr \<lparr>index = [Text ''A'', Text ''B''],
          columns = [1, 2, 3, 4, 5, 6, 7, 8, 9, 10, 11, 12],
          cells = [[Text ''n/a'', Num 0, Num 0, Num 0, Num 0, Num 0, Num 0, Num 0, Num 0, Num 0,
                    Num 0, Num 0],
                   [Num 1, Num 1, Num 1, Num 1, Num 1, Num 1, Num 1, Num 1, Num 1, Num 1,
                    Num 1, Num 1]]\<rparr>"
  by (simp add: data_def short_table_def reader_table_def Let_def tail_def upto_rec1)

text \<open>
  C9, amended. The extraction fails exactly when the table has fewer than 14 columns:
  with \<open>IndexError\<close> for at most one column and with \<open>ValueError\<close> for 2 to 13 columns.
  The number of rows and the contents of the cells play no part.
\<close>

theorem data_fails_iff:
  "(data df = Inl IndexError \<longleftrightarrow> length (header df) \<le> 1) \<and>
   (data df = Inl ValueError \<longleftrightarrow> 1 < length (header df) \<and> length (header df) < 14) \<and>
   ((\<exists>fr. data df = Inr fr) \<longleftrightarrow> 14 \<le> length (header df))"
  by (simp add: data_cases del: upt_rec_numeral)

theorem data_fails_iff_witness:
  "data label_first_table = Inl ValueError \<and> length (header label_first_table) = 13 \<and>
   (\<exists>fr. data short_table = Inr fr) \<and> length (header short_table) = 14 \<and>
   data \<lparr>header = [''only''], body = [[Num 1]]\<rparr> = Inl IndexError"
  using data_fails_iff [of label_first_table] data_fails_iff [of short_table]
    data_fails_iff [of "\<lparr>header = [''only''], body = [[Num 1]]\<rparr>"]
  by (simp add: label_first_table_def short_table_def reader_table_def)

section \<open>Facts about tokens and frames\<close>

lemma digit_not_int_space: "digit_chr c \<Longrightarrow> \<not> int_space_chr c"
  by (auto simp: digit_chr_def int_space_chr_def)

lemma alpha_not_digit: "alpha_chr c \<Longrightarrow> \<not> digit_chr c"
  by (auto simp: digit_chr_def alpha_chr_def)

lemma digit_not_sign: "digit_chr c \<Longrightarrow> c \<noteq> CHR ''-'' \<and> c \<noteq> CHR ''+''"
  by (auto simp: digit_chr_def)

lemma isalpha_not_isdigit: "str_isalpha s \<Longrightarrow> \<not> str_isdigit s"
  by (cases s) (auto simp: str_isalpha_def str_isdigit_def alpha_not_digit)

lemma int_strip_digits: "str_isdigit s \<Longrightarrow> int_strip s = s"
proof -
  assume a: "str_isdigit s"
  then have ne: "s \<noteq> []" and all: "\<forall>c \<in> set s. digit_chr c"
    by (auto simp: str_isdigit_def list_all_iff)
  have "\<not> int_space_chr (hd s)" using ne all digit_not_int_space by auto
  then have 1: "dropWhile int_space_chr s = s"
    using ne by (cases s) auto
  have "\<not> int_space_chr (hd (rev s))"
    using ne all digit_not_int_space by (simp add: hd_rev)
  then have 2: "dropWhile int_space_chr (rev s) = rev s"
    using ne by (cases "rev s") auto
  show ?thesis by (simp add: int_strip_def 1 2)
qed

lemma int_digits_all:
  "list_all digit_chr cs \<Longrightarrow>
   int_digits acc cs = Some (foldl (\<lambda>a c. 10 * a + digit_val c) acc cs)"
  by (induction cs arbitrary: acc) simp_all

lemma py_int_digits: "str_isdigit s \<Longrightarrow> py_int s = Some (int (decimal s))"
proof -
  assume a: "str_isdigit s"
  then obtain c cs where s: "s = c # cs" and c: "digit_chr c" and cs: "list_all digit_chr cs"
    by (cases s) (auto simp: str_isdigit_def)
  have "int_literal s = Some (decimal s)"
    using c cs by (simp add: s int_literal_def decimal_def int_digits_all digit_val_def)
  then show ?thesis
    using int_strip_digits [OF a] digit_not_sign [OF c] by (simp add: py_int_def s)
qed

lemma those_map_Some:
  "\<forall>x \<in> set xs. f x = Some (g x) \<Longrightarrow> those (map f xs) = Some (map g xs)"
  by (induction xs) simp_all

lemma filter_upt_single:
  assumes "p < n" and "\<And>i. i < n \<Longrightarrow> P i \<longleftrightarrow> i = p"
  shows "filter P [0..<n] = [p]"
proof -
  have split: "[0..<n] = [0..<p] @ p # [Suc p..<n]"
    using assms(1) by (metis less_imp_le_nat upt_add_eq_append upt_conv_Cons le0 add_0 le_add_diff_inverse)
  have a: "filter P [0..<p] = []" using assms by (auto simp: filter_empty_conv)
  have b: "filter P [Suc p..<n] = []" using assms by (auto simp: filter_empty_conv)
  have c: "P p" using assms by simp
  show ?thesis by (simp add: split a b c del: upt_Suc)
qed

lemma positions_distinct:
  assumes "distinct cs" and "l \<in> set cs"
  shows "\<exists>p. positions cs l = [p] \<and> p < length cs \<and> cs ! p = l"
proof -
  from assms(2) obtain p where p: "p < length cs" "cs ! p = l"
    by (auto simp: in_set_conv_nth)
  have "positions cs l = [p]"
    unfolding positions_def
    using p assms(1) by (intro filter_upt_single) (auto simp: nth_eq_iff_index_eq)
  with p show ?thesis by blast
qed

lemma positions_empty: "l \<notin> set cs \<Longrightarrow> positions cs l = []"
  by (auto simp: positions_def filter_empty_conv)

lemma concat_singletons: "\<forall>x \<in> set xs. f x = [g x] \<Longrightarrow> concat (map f xs) = map g xs"
  by (induction xs) simp_all

lemma getitem_list_distinct:
  assumes "distinct (columns d)" and "\<forall>l \<in> set ls. l \<in> set (columns d)"
  shows "getitem_list d ls =
           Inr \<lparr>index = index d, columns = ls,
                cells = map (\<lambda>r. map (\<lambda>l. r ! hd (positions (columns d) l)) ls) (cells d)\<rparr>"
proof -
  have one: "\<And>l. l \<in> set ls \<Longrightarrow>
      positions (columns d) l = [hd (positions (columns d) l)] \<and>
      columns d ! hd (positions (columns d) l) = l"
    using positions_distinct [OF assms(1)] assms(2) by fastforce
  have ps: "concat (map (positions (columns d)) ls) = map (\<lambda>l. hd (positions (columns d) l)) ls"
    using one by (intro concat_singletons) auto
  have ne: "\<not> list_ex (\<lambda>l. positions (columns d) l = []) ls"
    using positions_distinct [OF assms(1)] assms(2) by (fastforce simp: list_ex_iff)
  have relabel: "map (\<lambda>x. columns d ! hd (positions (columns d) x)) ls = ls"
    using one by (intro map_idI) simp
  show ?thesis
    by (simp add: getitem_list_def ne ps relabel Let_def comp_def)
qed

lemma getitem_distinct:
  assumes "distinct (columns d)" and "l \<in> set (columns d)"
  shows "getitem d l = Inr (map (\<lambda>r. r ! hd (positions (columns d) l)) (cells d))"
  using positions_distinct [OF assms] by (auto simp: getitem_def)

lemma transpose_row:
  "i < length (columns d) \<Longrightarrow> cells (transpose_frame d) ! i = map (\<lambda>r. r ! i) (cells d)"
  by (simp add: transpose_frame_def)

lemma transpose_column:
  assumes "rectangular d" and "p < length (cells d)"
  shows "map (\<lambda>r. r ! p) (cells (transpose_frame d)) = cells d ! p"
proof -
  have len: "length (cells d ! p) = length (columns d)"
    using assms by (simp add: rectangular_def list_all_length)
  show ?thesis
    using assms(2) len
    by (intro nth_equalityI) (simp_all add: transpose_frame_def)
qed

section \<open>The standard curve\<close>

lemma StandardCurve_numeric:
  assumes "list_all str_isdigit (t # ts)"
  shows "StandardCurve plate conc (t # ts) =
     (case getitem_list plate (map (\<lambda>s. int (decimal s)) (t # ts)) of
        Inl e \<Rightarrow> None
      | Inr sel \<Rightarrow>
          Some (conc, Columns (map (\<lambda>s. int (decimal s)) (t # ts)),
                Some (take (length conc) (map mean (cells sel)))))"
proof -
  have "those (map py_int (t # ts)) = Some (map (\<lambda>s. int (decimal s)) (t # ts))"
    using assms by (intro those_map_Some) (auto simp: list_all_iff py_int_digits)
  moreover have "str_isdigit t" using assms by simp
  ultimately show ?thesis
    unfolding StandardCurve_def by (simp del: those.simps list.map)
qed

lemma StandardCurve_alphabetic:
  assumes "str_isalpha t"
  shows "StandardCurve plate conc (t # ts) =
     (case getitem_list (transpose_frame plate) (map str_upper (t # ts)) of
        Inl e \<Rightarrow> None
      | Inr sel \<Rightarrow>
          Some (conc, Tokens (map str_upper (t # ts)),
                Some (take (length conc) (map mean (cells sel)))))"
  using assms isalpha_not_isdigit [OF assms]
  unfolding StandardCurve_def by (simp add: Let_def del: list.map)

lemma StandardCurve_neither:
  assumes "\<not> str_isdigit t" and "\<not> str_isalpha t"
  shows "StandardCurve plate conc (t # ts) = Some (conc, Tokens (t # ts), None)"
  using assms unfolding StandardCurve_def by simp

text \<open>
  C3, as the claim states it, fails: the orientation is read off the first token alone.
  The tokens \<open>3\<close> and \<open>+4\<close> are mixed (the second is neither numeric nor alphabetic), and
  yet the means are taken over columns 3 and 4 and the line is fitted.
\<close>

theorem orientation_counterexample:
  "\<not> list_all str_isdigit [''3'', ''+4''] \<and> \<not> list_all str_isalpha [''3'', ''+4''] \<and>
   StandardCurve demo_plate [0, 1] [''3'', ''+4''] =
     Some ([0, 1], Columns [3, 4], Some [Finite (9 / 200), Finite (23 / 200)]) \<and>
   fit_curve round4 least_squares demo_plate [0, 1] [''3'', ''+4''] = Inr (7 / 100, 9 / 200)"
  by (simp add: fit_curve_def StandardCurve_def str_isdigit_def str_isalpha_def digit_chr_def
      alpha_chr_def py_int_def int_strip_def int_space_chr_def
      int_literal_def digit_val_def getitem_list_def positions_def
      demo_plate_def mean_def round4_def rint_def least_squares_def finite_values_def Let_def)

text \<open>
  C3, amended. For ASCII location tokens the orientation is decided by the first token
  alone, whatever the tokens after it are. If the first token is numeric, the means are
  taken in vertical orientation: every token is converted with \<open>int\<close>, and the means are
  those of the rows over the plate columns that the numbers name. If the first token is
  alphabetic, they are taken in horizontal orientation: every token is uppercased, and
  the means are those of the rows of the transposed plate over the columns that the
  uppercased tokens name. In both orientations the function returns \<open>None\<close> four times
  when a token cannot be converted or names no column. If the first token is neither
  numeric nor alphabetic, no orientation is detected and no means are produced:
  \<open>new_data\<close> is \<open>None\<close>.
\<close>

theorem orientation_by_first_token:
  "list_all str_isascii (t # ts) \<longrightarrow>
   (str_isdigit t \<longrightarrow>
      StandardCurve plate conc (t # ts) =
        (case those (map py_int (t # ts)) of
           None \<Rightarrow> None
         | Some ks \<Rightarrow>
             (case getitem_list plate ks of
                Inl e \<Rightarrow> None
              | Inr sel \<Rightarrow>
                  Some (conc, Columns ks, Some (take (length conc) (map mean (cells sel))))))) \<and>
   (str_isalpha t \<longrightarrow>
      StandardCurve plate conc (t # ts) =
        (case getitem_list (transpose_frame plate) (map str_upper (t # ts)) of
           Inl e \<Rightarrow> None
         | Inr sel \<Rightarrow>
             Some (conc, Tokens (map str_upper (t # ts)),
                   Some (take (length conc) (map mean (cells sel)))))) \<and>
   (\<not> str_isdigit t \<and> \<not> str_isalpha t \<longrightarrow>
      StandardCurve plate conc (t # ts) = Some (conc, Tokens (t # ts), None))"
proof (intro impI conjI)
  assume "str_isdigit t"
  then show "StandardCurve plate conc (t # ts) =
        (case those (map py_int (t # ts)) of
           None \<Rightarrow> None
         | Some ks \<Rightarrow>
             (case getitem_list plate ks of
                Inl e \<Rightarrow> None
              | Inr sel \<Rightarrow>
                  Some (conc, Columns ks, Some (take (length conc) (map mean (cells sel))))))"
    unfolding StandardCurve_def by (simp del: those.simps list.map)
next
  assume "str_isalpha t"
  then show "StandardCurve plate conc (t # ts) =
        (case getitem_list (transpose_frame plate) (map str_upper (t # ts)) of
           Inl e \<Rightarrow> None
         | Inr sel \<Rightarrow>
             Some (conc, Tokens (map str_upper (t # ts)),
                   Some (take (length conc) (map mean (cells sel)))))"
    by (rule StandardCurve_alphabetic)
next
  assume "\<not> str_isdigit t \<and> \<not> str_isalpha t"
  then show "StandardCurve plate conc (t # ts) = Some (conc, Tokens (t # ts), None)"
    by (simp add: StandardCurve_neither)
qed

theorem orientation_by_first_token_witness:
  "list_all str_isascii [''3'', ''+4''] \<and> str_isdigit ''3'' \<and>
   list_all str_isascii [''a'', ''7''] \<and> str_isalpha ''a'' \<and>
   list_all str_isascii [''#'', ''3''] \<and> \<not> str_isdigit ''#'' \<and> \<not> str_isalpha ''#'' \<and>
   StandardCurve demo_plate [0, 1] [''3'', ''+4''] =
     Some ([0, 1], Columns [3, 4], Some [Finite (9 / 200), Finite (23 / 200)]) \<and>
   StandardCurve demo_plate [0, 1] [''a'', ''7''] = None \<and>
   StandardCurve demo_plate [0, 1] [''#'', ''3''] = Some ([0, 1], Tokens [''#'', ''3''], None)"
proof -
  have a1: "list_all str_isascii [''3'', ''+4'']"
    by (simp add: str_isascii_def ascii_chr_def)
  have a2: "list_all str_isascii [''a'', ''7'']"
    by (simp add: str_isascii_def ascii_chr_def)
  have a3: "list_all str_isascii [''#'', ''3'']"
    by (simp add: str_isascii_def ascii_chr_def)
  have h1: "str_isdigit ''3''"
    by (simp add: str_isdigit_def digit_chr_def)
  have h2: "str_isalpha ''a''"
    by (simp add: str_isalpha_def alpha_chr_def)
  have h3: "\<not> str_isdigit ''#'' \<and> \<not> str_isalpha ''#''"
    by (simp add: str_isdigit_def str_isalpha_def digit_chr_def alpha_chr_def)
  note t1 = orientation_by_first_token [of "''3''" "[''+4'']" demo_plate "[0, 1]", THEN mp, OF a1]
  note t2 = orientation_by_first_token [of "''a''" "[''7'']" demo_plate "[0, 1]", THEN mp, OF a2]
  note t3 = orientation_by_first_token [of "''#''" "[''3'']" demo_plate "[0, 1]", THEN mp, OF a3]
  have c1: "StandardCurve demo_plate [0, 1] [''3'', ''+4''] =
     Some ([0, 1], Columns [3, 4], Some [Finite (9 / 200), Finite (23 / 200)])"
    using t1 [THEN conjunct1, THEN mp, OF h1]
    by (simp add: py_int_def int_strip_def int_space_chr_def int_literal_def digit_chr_def
        digit_val_def getitem_list_def positions_def demo_plate_def mean_def)
  have c2: "StandardCurve demo_plate [0, 1] [''a'', ''7''] = None"
    using t2 [THEN conjunct2, THEN conjunct1, THEN mp, OF h2]
    by (simp add: str_upper_def upper_chr_def char_of_def bit_Suc_0_iff getitem_list_def
        positions_def transpose_frame_def demo_plate_def)
  have c3: "StandardCurve demo_plate [0, 1] [''#'', ''3''] = Some ([0, 1], Tokens [''#'', ''3''], None)"
    using t3 [THEN conjunct2, THEN conjunct2, THEN mp, OF h3] .
  show ?thesis using a1 a2 a3 h1 h2 h3 c1 c2 c3 by blast
qed

subsection \<open>Mean absorbances\<close>

lemma vertical_means:
  assumes "distinct (columns plate)" and "locs \<noteq> []" and "list_all str_isdigit locs"
    and "\<forall>t \<in> set locs. int (decimal t) \<in> set (columns plate)"
    and "length conc \<le> length (cells plate)"
  shows "\<exists>nd. StandardCurve plate conc locs =
             Some (conc, Columns (map (\<lambda>t. int (decimal t)) locs), Some nd) \<and>
           length nd = length conc \<and>
           (\<forall>i < length conc. nd ! i =
              mean (map (\<lambda>t. cells plate ! i ! hd (positions (columns plate) (int (decimal t))))
                     locs))"
proof -
  let ?ks = "map (\<lambda>t. int (decimal t)) locs"
  let ?rows = "map (\<lambda>r. map (\<lambda>l. r ! hd (positions (columns plate) l)) ?ks) (cells plate)"
  let ?nd = "take (length conc) (map mean ?rows)"
  obtain t ts where locs: "locs = t # ts" using assms(2) by (cases locs) auto
  have sel: "getitem_list plate ?ks =
      Inr \<lparr>index = index plate, columns = ?ks, cells = ?rows\<rparr>"
    using assms(1,4) by (intro getitem_list_distinct) auto
  have sc: "StandardCurve plate conc locs = Some (conc, Columns ?ks, Some ?nd)"
    using StandardCurve_numeric [of t ts plate conc] assms(3) sel
    unfolding locs by (simp del: list.map)
  have len: "length ?nd = length conc" using assms(5) by simp
  have nth: "?nd ! i =
      mean (map (\<lambda>t. cells plate ! i ! hd (positions (columns plate) (int (decimal t)))) locs)"
    if "i < length conc" for i
    using that assms(5) by (simp add: comp_def)
  show ?thesis using sc len nth by blast
qed

lemma horizontal_means:
  assumes "rectangular plate" and "distinct (index plate)" and "locs \<noteq> []"
    and "list_all str_isalpha locs"
    and "\<forall>t \<in> set locs. str_upper t \<in> set (index plate)"
    and "length conc \<le> length (columns plate)"
  shows "\<exists>nd. StandardCurve plate conc locs =
             Some (conc, Tokens (map str_upper locs), Some nd) \<and>
           length nd = length conc \<and>
           (\<forall>i < length conc. nd ! i =
              mean (map (\<lambda>t. cells plate ! hd (positions (index plate) (str_upper t)) ! i)
                     locs))"
proof -
  let ?ls = "map str_upper locs"
  let ?tr = "transpose_frame plate"
  let ?rows = "map (\<lambda>r. map (\<lambda>l. r ! hd (positions (index plate) l)) ?ls) (cells ?tr)"
  let ?nd = "take (length conc) (map mean ?rows)"
  obtain t ts where locs: "locs = t # ts" using assms(3) by (cases locs) auto
  have cols: "columns ?tr = index plate" by (simp add: transpose_frame_def)
  have ntr: "length (cells ?tr) = length (columns plate)" by (simp add: transpose_frame_def)
  have sel: "getitem_list ?tr ?ls = Inr \<lparr>index = index ?tr, columns = ?ls, cells = ?rows\<rparr>"
    using getitem_list_distinct [of ?tr ?ls] assms(2,5) cols by simp
  have sc: "StandardCurve plate conc locs = Some (conc, Tokens ?ls, Some ?nd)"
    using StandardCurve_alphabetic [of t plate conc ts] assms(4) sel
    unfolding locs by (simp del: list.map)
  have len: "length ?nd = length conc" using assms(6) ntr by simp
  have pos: "hd (positions (index plate) (str_upper t)) < length (cells plate)"
    if "t \<in> set locs" for t
  proof -
    have "str_upper t \<in> set (index plate)" using that assms(5) by simp
    then have "hd (positions (index plate) (str_upper t)) < length (index plate)"
      using positions_distinct [OF assms(2), of "str_upper t"] by auto
    then show ?thesis using assms(1) by (simp add: rectangular_def)
  qed
  have nth: "?nd ! i =
      mean (map (\<lambda>t. cells plate ! hd (positions (index plate) (str_upper t)) ! i) locs)"
    if "i < length conc" for i
  proof -
    have i: "i < length (columns plate)" using that assms(6) by simp
    have "?nd ! i = mean (map (\<lambda>l. cells ?tr ! i ! hd (positions (index plate) l)) ?ls)"
      using that assms(6) ntr by simp
    also have "map (\<lambda>l. cells ?tr ! i ! hd (positions (index plate) l)) ?ls =
        map (\<lambda>t. cells plate ! hd (positions (index plate) (str_upper t)) ! i) locs"
      using pos i by (simp add: transpose_row)
    finally show ?thesis .
  qed
  show ?thesis using sc len nth by blast
qed

lemma demo_plate_shape:
  "rectangular demo_plate \<and> distinct (columns demo_plate) \<and> distinct (index demo_plate)"
  by (simp add: rectangular_def demo_plate_def)

text \<open>
  C2, as the claim states it, fails: with nine concentrations and the numeric location
  \<open>1\<close>, the slice \<open>[0:9]\<close> of the eight row means has eight entries, not nine.
\<close>

theorem mean_absorbance_counterexample:
  "list_all str_isdigit [''1''] \<and>
   StandardCurve demo_plate [0, 1, 2, 3, 4, 5, 6, 7, 8] [''1''] =
     Some ([0, 1, 2, 3, 4, 5, 6, 7, 8], Columns [1],
           Some [Finite 1, Finite 2, Finite 3, Finite 4, Finite 5, Finite 6, Finite 7, Finite 8])"
  by (simp add: StandardCurve_def str_isdigit_def digit_chr_def py_int_def int_strip_def int_space_chr_def
      str_strip_def space_chr_def int_literal_def digit_val_def getitem_list_def positions_def
      demo_plate_def mean_def)

text \<open>
  C2, amended. On a rectangular plate with distinct column labels, for numeric location
  tokens that name plate columns and at most as many concentrations as the plate has
  rows, the mean absorbances are as many as the concentrations, and the one at index
  \<open>i\<close> is the mean of the cells of row \<open>i\<close> in the named columns. On a rectangular plate
  with distinct row labels, for alphabetic tokens whose uppercase names plate rows and at
  most as many concentrations as the plate has columns, the mean at index \<open>i\<close> is the
  mean of the cells at position \<open>i\<close> of the named rows.
\<close>

theorem mean_absorbance:
  "(rectangular plate \<and> distinct (columns plate) \<and> locs \<noteq> [] \<and> list_all str_isdigit locs \<and>
    (\<forall>t \<in> set locs. int (decimal t) \<in> set (columns plate)) \<and>
    length conc \<le> length (cells plate) \<longrightarrow>
      (\<exists>nd. StandardCurve plate conc locs =
               Some (conc, Columns (map (\<lambda>t. int (decimal t)) locs), Some nd) \<and>
             length nd = length conc \<and>
             (\<forall>i < length conc. nd ! i =
                mean (map (\<lambda>t. cells plate ! i !
                                 hd (positions (columns plate) (int (decimal t)))) locs)))) \<and>
   (rectangular plate \<and> distinct (index plate) \<and> locs \<noteq> [] \<and> list_all str_isalpha locs \<and>
    (\<forall>t \<in> set locs. str_upper t \<in> set (index plate)) \<and>
    length conc \<le> length (columns plate) \<longrightarrow>
      (\<exists>nd. StandardCurve plate conc locs =
               Some (conc, Tokens (map str_upper locs), Some nd) \<and>
             length nd = length conc \<and>
             (\<forall>i < length conc. nd ! i =
                mean (map (\<lambda>t. cells plate ! hd (positions (index plate) (str_upper t)) ! i)
                       locs))))"
  using vertical_means [of plate locs conc] horizontal_means [of plate locs conc]
  by (intro conjI impI) (elim conjE, simp)+

theorem mean_absorbance_witness:
  "rectangular demo_plate \<and> distinct (columns demo_plate) \<and> distinct (index demo_plate) \<and>
   list_all str_isdigit [''3'', ''4'', ''5''] \<and> list_all str_isalpha [''a'', ''B''] \<and>
   StandardCurve demo_plate [0, 1 / 4, 1 / 2, 1, 2] [''3'', ''4'', ''5''] =
     Some ([0, 1 / 4, 1 / 2, 1, 2], Columns [3, 4, 5],
           Some [Finite (1 / 20), Finite (3 / 25), Finite (1 / 5), Finite (7 / 20),
                 Finite (3 / 5)]) \<and>
   StandardCurve demo_plate [0, 1] [''a'', ''B''] =
     Some ([0, 1], Tokens [''A'', ''B''], Some [Finite (3 / 2), Finite (5 / 2)])"
proof -
  note shape = demo_plate_shape
  have h1: "list_all str_isdigit [''3'', ''4'', ''5'']"
    by (simp add: str_isdigit_def digit_chr_def)
  have h2: "list_all str_isalpha [''a'', ''B'']"
    by (simp add: str_isalpha_def alpha_chr_def)
  have d: "map (\<lambda>t. int (decimal t)) [''3'', ''4'', ''5''] = [3, 4, 5]"
    by (simp add: decimal_def digit_val_def)
  have u: "map str_upper [''a'', ''B''] = [''A'', ''B'']"
    by (simp add: str_upper_def upper_chr_def char_of_def bit_Suc_0_iff)
  have v: "rectangular demo_plate \<and> distinct (columns demo_plate) \<and>
      [''3'', ''4'', ''5''] \<noteq> [] \<and> list_all str_isdigit [''3'', ''4'', ''5''] \<and>
      (\<forall>t \<in> set [''3'', ''4'', ''5'']. int (decimal t) \<in> set (columns demo_plate)) \<and>
      length [0, 1 / 4, 1 / 2, 1, 2 :: real] \<le> length (cells demo_plate)"
    using shape h1 by (simp add: decimal_def digit_val_def demo_plate_def)
  have h: "rectangular demo_plate \<and> distinct (index demo_plate) \<and>
      [''a'', ''B''] \<noteq> [] \<and> list_all str_isalpha [''a'', ''B''] \<and>
      (\<forall>t \<in> set [''a'', ''B'']. str_upper t \<in> set (index demo_plate)) \<and>
      length [0, 1 :: real] \<le> length (columns demo_plate)"
    using shape h2 u by (simp add: demo_plate_def)
  from mean_absorbance [of demo_plate "[''3'', ''4'', ''5'']" "[0, 1 / 4, 1 / 2, 1, 2]",
      THEN conjunct1, THEN mp, OF v]
  obtain nd where nd: "StandardCurve demo_plate [0, 1 / 4, 1 / 2, 1, 2] [''3'', ''4'', ''5''] =
      Some ([0, 1 / 4, 1 / 2, 1, 2], Columns [3, 4, 5], Some nd)" "length nd = 5"
    "\<forall>i < 5. nd ! i =
       mean (map (\<lambda>t. cells demo_plate ! i !
                        hd (positions (columns demo_plate) (int (decimal t))))
               [''3'', ''4'', ''5''])"
    unfolding d by auto
  have pc: "map (\<lambda>t. hd (positions (columns demo_plate) (int (decimal t))))
      [''3'', ''4'', ''5''] = [2, 3, 4]"
    by (simp add: decimal_def digit_val_def positions_def demo_plate_def)
  have "nd = [nd ! 0, nd ! 1, nd ! 2, nd ! 3, nd ! 4]"
    using nd(2) by (intro nth_equalityI) (auto simp: nth_Cons' less_Suc_eq numeral_eq_Suc)
  also have "\<dots> = [Finite (1 / 20), Finite (3 / 25), Finite (1 / 5), Finite (7 / 20),
                 Finite (3 / 5)]"
    using nd(3) by (simp add: decimal_def digit_val_def positions_def demo_plate_def mean_def)
  finally have c1: "StandardCurve demo_plate [0, 1 / 4, 1 / 2, 1, 2] [''3'', ''4'', ''5''] =
     Some ([0, 1 / 4, 1 / 2, 1, 2], Columns [3, 4, 5],
           Some [Finite (1 / 20), Finite (3 / 25), Finite (1 / 5), Finite (7 / 20),
                 Finite (3 / 5)])"
    using nd(1) by simp
  from mean_absorbance [of demo_plate "[''a'', ''B'']" "[0, 1]",
      THEN conjunct2, THEN mp, OF h]
  obtain md where md: "StandardCurve demo_plate [0, 1] [''a'', ''B''] =
      Some ([0, 1], Tokens [''A'', ''B''], Some md)" "length md = 2"
    "\<forall>i < 2. md ! i =
       mean (map (\<lambda>t. cells demo_plate ! hd (positions (index demo_plate) (str_upper t)) ! i)
               [''a'', ''B''])"
    unfolding u by auto
  have "md = [md ! 0, md ! 1]"
    using md(2) by (intro nth_equalityI) (auto simp: nth_Cons' less_Suc_eq numeral_eq_Suc)
  also have "\<dots> = [Finite (3 / 2), Finite (5 / 2)]"
    using md(3)
    by (simp add: str_upper_def upper_chr_def char_of_def bit_Suc_0_iff positions_def
        demo_plate_def mean_def)
  finally have c2: "StandardCurve demo_plate [0, 1] [''a'', ''B''] =
     Some ([0, 1], Tokens [''A'', ''B''], Some [Finite (3 / 2), Finite (5 / 2)])"
    using md(1) by simp
  show ?thesis using shape h1 h2 c1 c2 by blast
qed

subsection \<open>The regression\<close>

text \<open>
  C8, as the claim states it, fails: with the concentrations 1 and 1, a single distinct
  value, the fit returns a slope and an intercept.
\<close>

theorem degenerate_fit_counterexample:
  "fit_curve round4 least_squares demo_plate [1, 1] [''3'', ''4'', ''5''] = Inr (0, 17 / 200)"
  by (simp add: fit_curve_def StandardCurve_def str_isdigit_def digit_chr_def py_int_def
      int_strip_def int_space_chr_def int_literal_def digit_val_def getitem_list_def
      positions_def demo_plate_def mean_def round4_def rint_def least_squares_def
      finite_values_def Let_def)

text \<open>
  C8, amended. The script makes no check of the number of distinct concentrations. The
  mean absorbances depend on the number of concentrations only, not on their values:
  whenever a list of concentrations reaches the regression, every list of the same
  length reaches it too, one with fewer than two distinct values included, with the same
  rounded means, and the outcome of the fit is what the regression routine returns for
  them.
\<close>

theorem no_distinctness_check:
  "length conc' = length conc \<and> StandardCurve plate conc locs = Some (c, l, Some nd) \<longrightarrow>
     c = conc \<and>
     StandardCurve plate conc' locs = Some (conc', l, Some nd) \<and>
     fit_curve rnd fit plate conc locs = fit conc (map rnd nd) \<and>
     fit_curve rnd fit plate conc' locs = fit conc' (map rnd nd)"
proof
  assume a: "length conc' = length conc \<and> StandardCurve plate conc locs = Some (c, l, Some nd)"
  then have c: "c = conc"
    by (auto simp: StandardCurve_def Let_def
        split: list.splits if_splits option.splits sum.splits)
  have s: "StandardCurve plate conc' locs = Some (conc', l, Some nd)"
    using a
    by (auto simp: StandardCurve_def Let_def
        split: list.splits if_splits option.splits sum.splits)
  show "c = conc \<and>
     StandardCurve plate conc' locs = Some (conc', l, Some nd) \<and>
     fit_curve rnd fit plate conc locs = fit conc (map rnd nd) \<and>
     fit_curve rnd fit plate conc' locs = fit conc' (map rnd nd)"
    using a c s by (simp add: fit_curve_def)
qed

theorem no_distinctness_check_witness:
  "length [1, 1 :: real] = length [0, 1 :: real] \<and>
   StandardCurve demo_plate [0, 1] [''3'', ''4'', ''5''] =
     Some ([0, 1], Columns [3, 4, 5], Some [Finite (1 / 20), Finite (3 / 25)]) \<and>
   StandardCurve demo_plate [1, 1] [''3'', ''4'', ''5''] =
     Some ([1, 1], Columns [3, 4, 5], Some [Finite (1 / 20), Finite (3 / 25)]) \<and>
   fit_curve round4 least_squares demo_plate [1, 1] [''3'', ''4'', ''5''] =
     least_squares [1, 1] [Finite (1 / 20), Finite (3 / 25)]"
proof -
  have h: "length [1, 1 :: real] = length [0, 1 :: real] \<and>
     StandardCurve demo_plate [0, 1] [''3'', ''4'', ''5''] =
       Some ([0, 1], Columns [3, 4, 5], Some [Finite (1 / 20), Finite (3 / 25)])"
    by (simp add: StandardCurve_def str_isdigit_def digit_chr_def py_int_def int_strip_def
      int_space_chr_def int_literal_def digit_val_def getitem_list_def positions_def
      demo_plate_def mean_def)
  have r: "map round4 [Finite (1 / 20), Finite (3 / 25)] = [Finite (1 / 20), Finite (3 / 25)]"
    by (simp add: round4_def rint_def Let_def)
  note t = no_distinctness_check [of "[1, 1]" "[0, 1]" demo_plate "[''3'', ''4'', ''5'']"
      "[0, 1]" "Columns [3, 4, 5]" "[Finite (1 / 20), Finite (3 / 25)]" round4 least_squares,
      THEN mp, OF h]
  show ?thesis using h t r by simp
qed

section \<open>The sample loop, token by token\<close>

text \<open>
  C4. The loop has a branch for invalid input, which warns and goes on to the next
  token, but a token reaches it only when its first character is neither a digit nor a
  letter. An ASCII token that is neither numeric nor alphabetic and begins with a digit
  is passed to \<open>int\<close>, which raises \<open>ValueError\<close> when the token is no integer literal; one
  that begins with a letter is looked up among the row labels, which raises \<open>KeyError\<close>
  when its uppercase names no row. Nothing catches the exception: the loop ends at that
  token, without a warning, and the tokens after it yield no concentration.
\<close>

theorem sample_loop_aborts:
  "(str_isascii (c # cs) \<and> digit_chr c \<and> py_int (c # cs) = None \<longrightarrow>
      \<not> str_isdigit (c # cs) \<and> \<not> str_isalpha (c # cs) \<and>
      sample_loop slope intercept plate ((c # cs) # rest) = [Raise ValueError]) \<and>
   (str_isascii (c # cs) \<and> alpha_chr c \<and> \<not> str_isalpha (c # cs) \<and>
    str_upper (c # cs) \<notin> set (index plate) \<longrightarrow>
      \<not> str_isdigit (c # cs) \<and>
      sample_loop slope intercept plate ((c # cs) # rest) = [Raise KeyError])"
proof (intro conjI impI)
  assume a: "str_isascii (c # cs) \<and> digit_chr c \<and> py_int (c # cs) = None"
  show "\<not> str_isdigit (c # cs)"
    using a py_int_digits [of "c # cs"] by auto
  show "\<not> str_isalpha (c # cs)"
    using a alpha_not_digit [of c] by (auto simp: str_isalpha_def)
  show "sample_loop slope intercept plate ((c # cs) # rest) = [Raise ValueError]"
    using a by (simp add: sample_step_def)
next
  assume a: "str_isascii (c # cs) \<and> alpha_chr c \<and> \<not> str_isalpha (c # cs) \<and>
    str_upper (c # cs) \<notin> set (index plate)"
  then have nd: "\<not> digit_chr c" using alpha_not_digit [of c] by blast
  then show "\<not> str_isdigit (c # cs)"
    by (simp add: str_isdigit_def)
  have "positions (columns (transpose_frame plate)) (str_upper (c # cs)) = []"
    using a by (simp add: transpose_frame_def positions_empty)
  then have "getitem (transpose_frame plate) (str_upper (c # cs)) = Inl KeyError"
    by (simp add: getitem_def)
  then show "sample_loop slope intercept plate ((c # cs) # rest) = [Raise KeyError]"
    using a nd by (simp add: sample_step_def)
qed

theorem sample_loop_aborts_witness:
  "str_isascii ''3a'' \<and> digit_chr (CHR ''3'') \<and> py_int ''3a'' = None \<and>
   \<not> str_isdigit ''3a'' \<and> \<not> str_isalpha ''3a'' \<and>
   batch 2 1 demo_plate ''3a,4'' = [Raise ValueError] \<and>
   batch 2 1 demo_plate ''4'' = [Conc ''4'' (Finite (- (263 / 600)))] \<and>
   str_isascii ''a1'' \<and> alpha_chr (CHR ''a'') \<and> \<not> str_isalpha ''a1'' \<and>
   str_upper ''a1'' \<notin> set (index demo_plate) \<and>
   sample_loop 2 1 demo_plate [''a1'', ''4''] = [Raise KeyError]"
proof -
  have h1: "str_isascii ''3a'' \<and> digit_chr (CHR ''3'') \<and> py_int ''3a'' = None"
    by (simp add: str_isascii_def ascii_chr_def digit_chr_def py_int_def int_strip_def
        int_space_chr_def int_literal_def digit_val_def)
  have u: "str_upper ''a1'' = ''A1''"
    by (simp add: str_upper_def upper_chr_def char_of_def bit_Suc_0_iff)
  have h2: "str_isascii ''a1'' \<and> alpha_chr (CHR ''a'') \<and> \<not> str_isalpha ''a1'' \<and>
      str_upper ''a1'' \<notin> set (index demo_plate)"
    unfolding u
    by (simp add: str_isascii_def ascii_chr_def alpha_chr_def str_isalpha_def demo_plate_def)
  have sp: "str_split (CHR '','') ''3a,4'' = [''3a'', ''4'']"
    by (simp add: str_split_def)
  have c1: "\<not> str_isdigit ''3a'' \<and> \<not> str_isalpha ''3a'' \<and>
      sample_loop 2 1 demo_plate [''3a'', ''4''] = [Raise ValueError]"
    using sample_loop_aborts [where c = "CHR ''3''" and cs = "''a''" and slope = 2 and
          intercept = 1 and plate = demo_plate and rest = "[''4'']",
        THEN conjunct1, THEN mp, OF h1] .
  have c2: "batch 2 1 demo_plate ''4'' = [Conc ''4'' (Finite (- (263 / 600)))]"
    by (simp add: CalcConc_def truediv_def batch_def str_split_def sample_step_def
        digit_chr_def py_int_def int_strip_def int_space_chr_def int_literal_def digit_val_def
        getitem_def positions_def demo_plate_def mean_def)
  have c3: "\<not> str_isdigit ''a1'' \<and> sample_loop 2 1 demo_plate [''a1'', ''4''] = [Raise KeyError]"
    using sample_loop_aborts [where c = "CHR ''a''" and cs = "''1''" and slope = 2 and
          intercept = 1 and plate = demo_plate and rest = "[''4'']",
        THEN conjunct2, THEN mp, OF h2] .
  have b: "batch 2 1 demo_plate ''3a,4'' = [Raise ValueError]"
    using c1 by (simp add: batch_def sp)
  show ?thesis using h1 h2 c1 c2 c3 b by blast
qed

end
